theory Spec2Isabelle
  imports Main
begin

section \<open>Module configuration (src/main.py, part 2: environment variables)\<close>

text \<open>
  The module reads its configuration with \<^verbatim>\<open>os.getenv\<close> right after
  \<^verbatim>\<open>load_dotenv()\<close>. The environment is a dictionary from names to strings;
  here it is the environment as \<^verbatim>\<open>os.getenv\<close> sees it, that is after
  \<^verbatim>\<open>load_dotenv()\<close> has run.
\<close>

type_synonym environ = "string \<rightharpoonup> string"

text \<open>\<^verbatim>\<open>os.getenv(k)\<close> gives \<^verbatim>\<open>None\<close> for a name that is not set.\<close>

definition getenv :: "environ \<Rightarrow> string \<Rightarrow> string option" where
  "getenv env k = env k"

text \<open>\<^verbatim>\<open>os.getenv(k, d)\<close> gives \<^verbatim>\<open>d\<close> for a name that is not set.\<close>

definition getenv_default :: "environ \<Rightarrow> string \<Rightarrow> string \<Rightarrow> string" where
  "getenv_default env k d = (case env k of None \<Rightarrow> d | Some v \<Rightarrow> v)"

text \<open>
  Python's truth value of an \<^verbatim>\<open>Optional[str]\<close>: \<^verbatim>\<open>None\<close> and the
  empty string are false, every other string is true.
\<close>

definition truth :: "string option \<Rightarrow> bool" where
  "truth v = (case v of None \<Rightarrow> False | Some s \<Rightarrow> s \<noteq> [])"

datatype error = ValueError string

record settings =
  OPENAI_API_KEY :: "string option"
  DATABASE_CONNECTION_STRING :: "string option"
  DATABASE_HOST :: "string option"
  DATABASE_PORT :: "string option"
  DATABASE_NAME :: "string option"
  DATABASE_USER :: "string option"
  DATABASE_PASSWORD :: "string option"
  ENV :: string
  DB_URL :: "string option"

text \<open>
  Lines 32 to 44 of src/main.py, the module's own startup check: eight reads of the
  environment, the check \<^verbatim>\<open>if not OPENAI_API_KEY: raise ValueError(...)\<close>, and
  the assignment of \<^verbatim>\<open>DB_URL\<close>. The raise is the \<open>Inl\<close> branch.
\<close>

definition module_environment :: "environ \<Rightarrow> error + settings" where
  "module_environment env =
     (let openai_api_key = getenv env ''OPENAI_API_KEY'';
          database_connection_string = getenv env ''DATABASE_CONNECTION_STRING'';
          database_host = getenv env ''DATABASE_HOST'';
          database_port = getenv env ''DATABASE_PORT'';
          database_name = getenv env ''DATABASE_NAME'';
          database_user = getenv env ''DATABASE_USER'';
          database_password = getenv env ''DATABASE_PASSWORD'';
          env_mode = getenv_default env ''ENV'' ''development''
      in if \<not> truth openai_api_key
         then Inl (ValueError ''OPENAI_API_KEY not set in .env'')
         else Inr \<lparr> OPENAI_API_KEY = openai_api_key,
                    DATABASE_CONNECTION_STRING = database_connection_string,
                    DATABASE_HOST = database_host,
                    DATABASE_PORT = database_port,
                    DATABASE_NAME = database_name,
                    DATABASE_USER = database_user,
                    DATABASE_PASSWORD = database_password,
                    ENV = env_mode,
                    DB_URL = database_connection_string \<rparr>)"



text \<open>
  What a library call can raise, with its text \<^verbatim>\<open>str(e)\<close>. Python has two
  kinds, and \<^verbatim>\<open>except Exception\<close> tells them apart:
  \<^item> \<open>Exception\<close>: an instance of class \<^verbatim>\<open>Exception\<close>;
  \<^item> \<open>BaseException\<close>: a raise outside class \<^verbatim>\<open>Exception\<close>, that is
    \<^verbatim>\<open>asyncio.CancelledError\<close> (raised at an \<^verbatim>\<open>await\<close> when the task is
    cancelled), \<^verbatim>\<open>KeyboardInterrupt\<close>, \<^verbatim>\<open>SystemExit\<close> or
    \<^verbatim>\<open>GeneratorExit\<close>.
\<close>

datatype raised = Exception string | BaseException string

text \<open>
  The whole module load. After line 44 the module goes on (lines 46 to 286): it constructs
  \<^verbatim>\<open>PostgresDb\<close>, \<^verbatim>\<open>PgVector\<close>, \<^verbatim>\<open>OpenAIEmbedder\<close>,
  \<^verbatim>\<open>Knowledge\<close>, \<^verbatim>\<open>PostgresTools\<close>, \<^verbatim>\<open>OpenAIChat\<close>,
  \<^verbatim>\<open>Agent\<close> and \<^verbatim>\<open>AgentOS\<close>, takes the application from
  \<^verbatim>\<open>get_app\<close>, adds the CORS middleware in production, and starts the server
  when run as a script. These are calls into libraries, so they are one parameter
  \<open>initialise\<close>: it sees the environment and the module's variables, and either raises
  or gives the application. The result keeps apart the module's own raise
  (\<open>Inl (Inl _)\<close>, line 42) and a raise of that later part (\<open>Inl (Inr _)\<close>).
\<close>

definition module_load ::
  "(environ \<Rightarrow> settings \<Rightarrow> raised + 'app) \<Rightarrow> environ \<Rightarrow> (error + raised) + 'app" where
  "module_load initialise env =
     (case module_environment env of
        Inl err \<Rightarrow> Inl (Inl err)
      | Inr s \<Rightarrow>
          (case initialise env s of
             Inl x \<Rightarrow> Inl (Inr x)
           | Inr app \<Rightarrow> Inr app))"

text \<open>
  An initialisation to run the module on: it refuses a missing connection string, as a
  database constructor may, and otherwise gives the connection string back.
\<close>

definition needs_db_url :: "environ \<Rightarrow> settings \<Rightarrow> raised + string" where
  "needs_db_url env s =
     (case DB_URL s of
        None \<Rightarrow> Inl (Exception ''One of db_url or db_engine must be provided'')
      | Some u \<Rightarrow> Inr u)"


section \<open>The knowledge loading endpoint (src/main.py, part 8)\<close>

text \<open>
  The two documents that \<^verbatim>\<open>load_knowledge\<close> hands to
  \<^verbatim>\<open>knowledge.add_content_async\<close>: a name, a URL and a metadata dictionary
  (kept as an association list, in the order of the source).
\<close>

record content =
  name :: string
  url :: string
  metadata :: "(string \<times> string) list"

definition usa_swimming_standards :: content where
  "usa_swimming_standards =
     \<lparr> name = ''USA Swimming Motivational Time Standards 2024-2028'',
       url = ''https://websitedevsa.blob.core.windows.net/sitefinity/docs/default-source/timesdocuments/time-standards/2025/2028-motivational-standards-age-group.pdf'',
       metadata = [(''user_tag'', ''USA Swimming Standards''),
                   (''content_type'', ''standards''),
                   (''source'', ''PDF''),
                   (''year'', ''2024-2028'')] \<rparr>"

definition college_recruiting_standards :: content where
  "college_recruiting_standards =
     \<lparr> name = ''College Swimming Recruiting Standards'',
       url = ''https://www.ncsasports.org/mens-swimming/college-swimming-recruiting-times'',
       metadata = [(''user_tag'', ''College Recruiting''),
                   (''content_type'', ''recruiting''),
                   (''source'', ''NCSA'')] \<rparr>"

text \<open>The logger: the records written so far, oldest first.\<close>

datatype level = INFO | ERROR

type_synonym log = "(level \<times> string) list"

text \<open>
  How a run of the endpoint ends: with the dictionary it returns, with the
  \<^verbatim>\<open>HTTPException\<close> it raises from its \<^verbatim>\<open>except\<close> block, or with a raise
  of a library call that the \<^verbatim>\<open>except\<close> block does not catch and that leaves the
  endpoint as it is.
\<close>

datatype reply =
    Returned (status: string) (message: string) (loaded_documents: "string list")
  | HTTPException (status_code: nat) (detail: string)
  | Uncaught raised

text \<open>
  The class \<^verbatim>\<open>Knowledge\<close> belongs to a library, so its two methods are parameters.
  A call takes the knowledge base \<open>'k\<close> to the knowledge base it leaves behind, together
  with either what it raised (\<open>Inl\<close>) or the value it returned (\<open>Inr\<close>).
\<close>

type_synonym ('k, 'r) call = "'k \<Rightarrow> 'k \<times> (raised + 'r)"

text \<open>
  The handler \<^verbatim>\<open>except Exception as e\<close> of line 270. An instance of
  \<^verbatim>\<open>Exception\<close> is caught: one error record, one HTTP 500. Any other raise is
  not caught: nothing is logged and the raise goes on to the caller.
\<close>

fun except_Exception :: "'k \<Rightarrow> log \<Rightarrow> raised \<Rightarrow> ('k \<times> log) \<times> reply" where
  "except_Exception k lg (Exception e) =
     ((k, lg @ [(ERROR, ''Error loading SwimBench knowledge: '' @ e)]),
      HTTPException 500 (''Error loading knowledge: '' @ e))"
| "except_Exception k lg (BaseException b) = ((k, lg), Uncaught (BaseException b))"

text \<open>
  \<^verbatim>\<open>load_knowledge\<close>: one \<^verbatim>\<open>try\<close> around \<^verbatim>\<open>clear\<close> and the two
  \<^verbatim>\<open>add_content_async\<close> calls. The values \<^verbatim>\<open>result1\<close> and
  \<^verbatim>\<open>result2\<close> are bound and never read.
\<close>

definition load_knowledge ::
  "('k, 'a) call \<Rightarrow> (content \<Rightarrow> ('k, 'r) call) \<Rightarrow> 'k \<Rightarrow> log \<Rightarrow> ('k \<times> log) \<times> reply" where
  "load_knowledge clear add_content_async k lg =
     (let lg1 = lg @ [(INFO, ''Starting SwimBench knowledge loading...'')] in
      case clear k of
        (k1, Inl x) \<Rightarrow> except_Exception k1 lg1 x
      | (k1, Inr _) \<Rightarrow>
          (case add_content_async usa_swimming_standards k1 of
             (k2, Inl x) \<Rightarrow> except_Exception k2 lg1 x
           | (k2, Inr result1) \<Rightarrow>
               (case add_content_async college_recruiting_standards k2 of
                  (k3, Inl x) \<Rightarrow> except_Exception k3 lg1 x
                | (k3, Inr result2) \<Rightarrow>
                    ((k3, lg1 @ [(INFO, ''SwimBench knowledge loading completed successfully'')]),
                     Returned ''success''
                       ''SwimBench knowledge base loaded successfully''
                       [''USA Swimming Standards 2024-2028'',
                        ''College Recruiting Standards'']))))"

subsection \<open>A knowledge base to run the endpoint on\<close>

text \<open>
  The simplest knowledge base: the list of the documents ingested so far. Clearing empties
  it; adding appends the document and returns the new size, except for the one document
  named \<open>bad\<close>, on which it raises \<open>x\<close> and leaves the list as it was.
\<close>

definition list_clear :: "(content list, unit) call" where
  "list_clear k = ([], Inr ())"

definition list_add :: "string \<Rightarrow> raised \<Rightarrow> content \<Rightarrow> (content list, nat) call" where
  "list_add bad x c k =
     (if name c = bad then (k, Inl x) else (k @ [c], Inr (Suc (length k))))"

text \<open>A clear that raises \<open>x\<close>, leaving the knowledge base untouched.\<close>

definition list_clear_raising :: "raised \<Rightarrow> (content list, unit) call" where
  "list_clear_raising x k = (k, Inl x)"


section \<open>Properties of the module configuration\<close>

lemma truth_iff: "truth v \<longleftrightarrow> v \<noteq> None \<and> v \<noteq> Some []"
  by (simp add: truth_def split: option.split)

lemma module_environment_isl:
  "isl (module_environment env) \<longleftrightarrow> \<not> truth (env ''OPENAI_API_KEY'')"
  by (simp add: module_environment_def getenv_def Let_def)

lemma module_environment_error:
  "isl (module_environment env) \<Longrightarrow>
     module_environment env = Inl (ValueError ''OPENAI_API_KEY not set in .env'')"
  by (simp add: module_environment_def getenv_def Let_def split: if_splits)

lemma module_environment_raises_iff:
  "(module_environment env = Inl (ValueError ''OPENAI_API_KEY not set in .env''))
     = (env ''OPENAI_API_KEY'' = None \<or> env ''OPENAI_API_KEY'' = Some [])"
proof -
  have raised: "isl (module_environment env)
      = (module_environment env = Inl (ValueError ''OPENAI_API_KEY not set in .env''))"
  proof
    assume "isl (module_environment env)"
    then show "module_environment env = Inl (ValueError ''OPENAI_API_KEY not set in .env'')"
      by (rule module_environment_error)
  next
    assume "module_environment env = Inl (ValueError ''OPENAI_API_KEY not set in .env'')"
    then show "isl (module_environment env)" by simp
  qed
  have "isl (module_environment env)
          = (env ''OPENAI_API_KEY'' = None \<or> env ''OPENAI_API_KEY'' = Some [])"
    by (simp add: module_environment_isl truth_iff)
  with raised show ?thesis by simp
qed

text \<open>
  On success the settings carry what the environment held, unchecked; \<^verbatim>\<open>DB_URL\<close>
  is the connection string, and \<^verbatim>\<open>ENV\<close> falls back to
  \<^verbatim>\<open>development\<close>.
\<close>

lemma module_environment_settings:
  "module_environment env = Inr s \<Longrightarrow>
     OPENAI_API_KEY s = env ''OPENAI_API_KEY''
     \<and> DATABASE_CONNECTION_STRING s = env ''DATABASE_CONNECTION_STRING''
     \<and> DB_URL s = env ''DATABASE_CONNECTION_STRING''
     \<and> DATABASE_HOST s = env ''DATABASE_HOST''
     \<and> DATABASE_PORT s = env ''DATABASE_PORT''
     \<and> DATABASE_NAME s = env ''DATABASE_NAME''
     \<and> DATABASE_USER s = env ''DATABASE_USER''
     \<and> DATABASE_PASSWORD s = env ''DATABASE_PASSWORD''
     \<and> ENV s = (case env ''ENV'' of None \<Rightarrow> ''development'' | Some v \<Rightarrow> v)"
  by (auto simp add: module_environment_def getenv_def getenv_default_def Let_def
           split: if_splits)

text \<open>The module's own raise happens exactly when its check fails, whatever comes later.\<close>

lemma module_load_own_raise:
  "(module_load initialise env = Inl (Inl err)) = (module_environment env = Inl err)"
  by (simp add: module_load_def split: sum.split)

lemma module_load_after_check:
  "module_environment env = Inr s \<Longrightarrow>
     module_load initialise env =
       (case initialise env s of Inl x \<Rightarrow> Inl (Inr x) | Inr app \<Rightarrow> Inr app)"
  by (simp add: module_load_def)

text \<open>
  Claim C10, as stated: at module load a \<^verbatim>\<open>ValueError\<close> is raised if and only if
  \<^verbatim>\<open>OPENAI_API_KEY\<close> is unset. It fails for a variable that is set to the empty
  string (a line \<^verbatim>\<open>OPENAI_API_KEY=\<close> in the .env file): the variable is set, and
  \<^verbatim>\<open>not OPENAI_API_KEY\<close> is true all the same, so the module raises at line 42,
  here with a connection string that the later initialisation would accept.
\<close>

theorem module_load_empty_key_counterexample:
  "[''OPENAI_API_KEY'' \<mapsto> '''', ''DATABASE_CONNECTION_STRING'' \<mapsto> ''postgresql://db/swim'']
       ''OPENAI_API_KEY'' \<noteq> None
   \<and> module_load needs_db_url
        [''OPENAI_API_KEY'' \<mapsto> '''', ''DATABASE_CONNECTION_STRING'' \<mapsto> ''postgresql://db/swim'']
       = Inl (Inl (ValueError ''OPENAI_API_KEY not set in .env''))"
  by (simp add: module_load_def module_environment_def getenv_def truth_def Let_def)

text \<open>
  Claim C10, amended to the module's own check (lines 32 to 44, which run before any
  library object is constructed): module load is aborted by the module's own
  \<^verbatim>\<open>ValueError\<close> if and only if \<^verbatim>\<open>OPENAI_API_KEY\<close> is unset or set to the
  empty string, whatever the rest of the module does; whether that raise happens depends
  on no other variable; and when it does not happen, the database connection variables
  reach the rest of the module exactly as the environment held them (unset ones as
  \<^verbatim>\<open>None\<close>), and module load ends as that rest ends: with the application, or
  with whatever a library constructor raises on them.
\<close>

theorem module_load_raises:
  "(module_load initialise env = Inl (Inl (ValueError ''OPENAI_API_KEY not set in .env'')))
     = (env ''OPENAI_API_KEY'' = None \<or> env ''OPENAI_API_KEY'' = Some [])
   \<and> (\<forall>env'. env' ''OPENAI_API_KEY'' = env ''OPENAI_API_KEY'' \<longrightarrow>
         (module_load initialise env' = Inl (Inl (ValueError ''OPENAI_API_KEY not set in .env'')))
           = (module_load initialise env
                = Inl (Inl (ValueError ''OPENAI_API_KEY not set in .env''))))
   \<and> (\<forall>s. module_environment env = Inr s \<longrightarrow>
         module_load initialise env
           = (case initialise env s of Inl x \<Rightarrow> Inl (Inr x) | Inr app \<Rightarrow> Inr app)
         \<and> DATABASE_CONNECTION_STRING s = env ''DATABASE_CONNECTION_STRING''
         \<and> DB_URL s = env ''DATABASE_CONNECTION_STRING''
         \<and> DATABASE_HOST s = env ''DATABASE_HOST''
         \<and> DATABASE_PORT s = env ''DATABASE_PORT''
         \<and> DATABASE_NAME s = env ''DATABASE_NAME''
         \<and> DATABASE_USER s = env ''DATABASE_USER''
         \<and> DATABASE_PASSWORD s = env ''DATABASE_PASSWORD'')"
proof (intro conjI allI impI)
  show "(module_load initialise env
           = Inl (Inl (ValueError ''OPENAI_API_KEY not set in .env'')))
          = (env ''OPENAI_API_KEY'' = None \<or> env ''OPENAI_API_KEY'' = Some [])"
    by (simp only: module_load_own_raise module_environment_raises_iff)
next
  fix env' :: environ
  assume "env' ''OPENAI_API_KEY'' = env ''OPENAI_API_KEY''"
  then show "(module_load initialise env'
                = Inl (Inl (ValueError ''OPENAI_API_KEY not set in .env'')))
           = (module_load initialise env
                = Inl (Inl (ValueError ''OPENAI_API_KEY not set in .env'')))"
    by (simp only: module_load_own_raise module_environment_raises_iff)
next
  fix s
  assume s: "module_environment env = Inr s"
  show "module_load initialise env
          = (case initialise env s of Inl x \<Rightarrow> Inl (Inr x) | Inr app \<Rightarrow> Inr app)"
    by (rule module_load_after_check [OF s])
  show "DATABASE_CONNECTION_STRING s = env ''DATABASE_CONNECTION_STRING''"
    using module_environment_settings [OF s] by simp
  show "DB_URL s = env ''DATABASE_CONNECTION_STRING''"
    using module_environment_settings [OF s] by simp
  show "DATABASE_HOST s = env ''DATABASE_HOST''"
    using module_environment_settings [OF s] by simp
  show "DATABASE_PORT s = env ''DATABASE_PORT''"
    using module_environment_settings [OF s] by simp
  show "DATABASE_NAME s = env ''DATABASE_NAME''"
    using module_environment_settings [OF s] by simp
  show "DATABASE_USER s = env ''DATABASE_USER''"
    using module_environment_settings [OF s] by simp
  show "DATABASE_PASSWORD s = env ''DATABASE_PASSWORD''"
    using module_environment_settings [OF s] by simp
qed

theorem module_load_raises_witness:
  "module_load needs_db_url Map.empty
     = Inl (Inl (ValueError ''OPENAI_API_KEY not set in .env''))
   \<and> module_load needs_db_url [''OPENAI_API_KEY'' \<mapsto> ''sk-test'']
     \<noteq> Inl (Inl (ValueError ''OPENAI_API_KEY not set in .env''))
   \<and> (module_load needs_db_url
         [''OPENAI_API_KEY'' \<mapsto> ''sk-test'', ''DATABASE_CONNECTION_STRING'' \<mapsto> ''postgresql://db/swim'']
        = Inl (Inl (ValueError ''OPENAI_API_KEY not set in .env'')))
     = (module_load needs_db_url [''OPENAI_API_KEY'' \<mapsto> ''sk-test'']
        = Inl (Inl (ValueError ''OPENAI_API_KEY not set in .env'')))
   \<and> module_load needs_db_url [''OPENAI_API_KEY'' \<mapsto> ''sk-test'']
     = Inl (Inr (Exception ''One of db_url or db_engine must be provided''))
   \<and> module_load needs_db_url
        [''OPENAI_API_KEY'' \<mapsto> ''sk-test'', ''DATABASE_CONNECTION_STRING'' \<mapsto> ''postgresql://db/swim'']
     = Inr ''postgresql://db/swim''"
proof -
  let ?e = "[''OPENAI_API_KEY'' \<mapsto> ''sk-test'']"
  let ?e' = "[''OPENAI_API_KEY'' \<mapsto> ''sk-test'',
              ''DATABASE_CONNECTION_STRING'' \<mapsto> ''postgresql://db/swim'']"
  let ?s = "\<lparr> OPENAI_API_KEY = Some ''sk-test'', DATABASE_CONNECTION_STRING = None,
              DATABASE_HOST = None, DATABASE_PORT = None, DATABASE_NAME = None,
              DATABASE_USER = None, DATABASE_PASSWORD = None,
              ENV = ''development'', DB_URL = None \<rparr>"
  let ?s' = "\<lparr> OPENAI_API_KEY = Some ''sk-test'',
               DATABASE_CONNECTION_STRING = Some ''postgresql://db/swim'',
               DATABASE_HOST = None, DATABASE_PORT = None, DATABASE_NAME = None,
               DATABASE_USER = None, DATABASE_PASSWORD = None,
               ENV = ''development'', DB_URL = Some ''postgresql://db/swim'' \<rparr>"
  have same: "?e' ''OPENAI_API_KEY'' = ?e ''OPENAI_API_KEY''" by simp
  have s: "module_environment ?e = Inr ?s"
    by (simp add: module_environment_def getenv_def getenv_default_def truth_def Let_def)
  have s': "module_environment ?e' = Inr ?s'"
    by (simp add: module_environment_def getenv_def getenv_default_def truth_def Let_def)
  have a: "module_load needs_db_url Map.empty
             = Inl (Inl (ValueError ''OPENAI_API_KEY not set in .env''))"
    using module_load_raises [of needs_db_url Map.empty] by simp
  have b: "module_load needs_db_url ?e
             \<noteq> Inl (Inl (ValueError ''OPENAI_API_KEY not set in .env''))"
    using module_load_raises [of needs_db_url ?e] by simp
  have c: "(module_load needs_db_url ?e'
              = Inl (Inl (ValueError ''OPENAI_API_KEY not set in .env'')))
         = (module_load needs_db_url ?e
              = Inl (Inl (ValueError ''OPENAI_API_KEY not set in .env'')))"
    by (rule module_load_raises
          [of needs_db_url ?e, THEN conjunct2, THEN conjunct1, THEN spec, of ?e',
           THEN mp, OF same])
  have d: "module_load needs_db_url ?e
             = Inl (Inr (Exception ''One of db_url or db_engine must be provided''))"
    using module_load_raises
          [of needs_db_url ?e, THEN conjunct2, THEN conjunct2, THEN spec, of ?s,
           THEN mp, OF s, THEN conjunct1]
    by (simp add: needs_db_url_def)
  have e: "module_load needs_db_url ?e' = Inr ''postgresql://db/swim''"
    using module_load_raises
          [of needs_db_url ?e', THEN conjunct2, THEN conjunct2, THEN spec, of ?s',
           THEN mp, OF s', THEN conjunct1]
    by (simp add: needs_db_url_def)
  show ?thesis by (rule conjI [OF a conjI [OF b conjI [OF c conjI [OF d e]]]])
qed


section \<open>Properties of the knowledge loading endpoint\<close>

text \<open>
  A run ends in one of three ways: the success report, an HTTP 500 that carries the text of
  a caught exception, or a raise that the handler does not catch.
\<close>

lemma except_Exception_reply:
  "snd (except_Exception k lg x)
     = (case x of
          Exception e \<Rightarrow> HTTPException 500 (''Error loading knowledge: '' @ e)
        | BaseException b \<Rightarrow> Uncaught (BaseException b))"
  by (cases x) simp_all

lemma load_knowledge_reply_cases:
  "snd (load_knowledge clear add k lg)
     = Returned ''success'' ''SwimBench knowledge base loaded successfully''
         [''USA Swimming Standards 2024-2028'', ''College Recruiting Standards'']
   \<or> (\<exists>e. snd (load_knowledge clear add k lg)
             = HTTPException 500 (''Error loading knowledge: '' @ e))
   \<or> (\<exists>b. snd (load_knowledge clear add k lg) = Uncaught (BaseException b))"
  by (simp add: load_knowledge_def except_Exception_reply Let_def
           split: prod.split sum.split raised.split)

text \<open>
  Claim C1, as stated: the reply carries a success or failure report per source, and a
  failure on the second document is reported distinctly. It fails: when the second
  document cannot be fetched (the first one stays in the knowledge base) the reply is the
  very HTTP 500 that is given when the first document cannot be fetched (the knowledge
  base stays empty). The reply names no source and reports nothing about the other one.
\<close>

theorem load_knowledge_second_failure_counterexample:
  "load_knowledge list_clear
        (list_add ''College Swimming Recruiting Standards'' (Exception ''fetch error'')) [] []
     = (([usa_swimming_standards],
         [(INFO, ''Starting SwimBench knowledge loading...''),
          (ERROR, ''Error loading SwimBench knowledge: fetch error'')]),
        HTTPException 500 ''Error loading knowledge: fetch error'')
   \<and> load_knowledge list_clear
        (list_add ''USA Swimming Motivational Time Standards 2024-2028''
           (Exception ''fetch error'')) [] []
     = (([],
         [(INFO, ''Starting SwimBench knowledge loading...''),
          (ERROR, ''Error loading SwimBench knowledge: fetch error'')]),
        HTTPException 500 ''Error loading knowledge: fetch error'')"
  by (simp add: load_knowledge_def list_clear_def list_add_def
        usa_swimming_standards_def college_recruiting_standards_def)

text \<open>
  Claim C1, amended: the endpoint calls the library's \<^verbatim>\<open>clear\<close> and then its
  \<^verbatim>\<open>add_content_async\<close> on the two fixed sources in order, the USA Swimming
  standards and then the college recruiting standards. The first call that raises ends
  the run: the endpoint makes no later call and undoes nothing, so the knowledge base
  stays as the raising call left it (a failure on the second document leaves what the
  first ingestion did). When the raise is an instance of \<^verbatim>\<open>Exception\<close>, the
  endpoint logs one error record and replies with an HTTP 500 whose detail is
  \<^verbatim>\<open>Error loading knowledge: \<close> followed by the text of the exception; the reply
  says nothing else about which source failed. When the raise is not an instance of
  \<^verbatim>\<open>Exception\<close> (a cancellation, for one), the endpoint catches nothing: no
  error record, no HTTP 500 of its own, the raise goes on to the caller. When no call
  raises, the reply is one success report that lists both documents, whatever the two
  ingestions returned.
\<close>

theorem load_knowledge_report:
  "(clear k = (k_cleared, Inl (Exception e)) \<longrightarrow>
      load_knowledge clear add k lg =
        ((k_cleared, lg @ [(INFO, ''Starting SwimBench knowledge loading...''),
                           (ERROR, ''Error loading SwimBench knowledge: '' @ e)]),
         HTTPException 500 (''Error loading knowledge: '' @ e)))
   \<and> (clear k = (k_cleared, Inl (BaseException b)) \<longrightarrow>
      load_knowledge clear add k lg =
        ((k_cleared, lg @ [(INFO, ''Starting SwimBench knowledge loading...'')]),
         Uncaught (BaseException b)))
   \<and> (clear k = (k_cleared, Inr u)
        \<and> add usa_swimming_standards k_cleared = (k_first, Inl (Exception e)) \<longrightarrow>
      load_knowledge clear add k lg =
        ((k_first, lg @ [(INFO, ''Starting SwimBench knowledge loading...''),
                         (ERROR, ''Error loading SwimBench knowledge: '' @ e)]),
         HTTPException 500 (''Error loading knowledge: '' @ e)))
   \<and> (clear k = (k_cleared, Inr u)
        \<and> add usa_swimming_standards k_cleared = (k_first, Inl (BaseException b)) \<longrightarrow>
      load_knowledge clear add k lg =
        ((k_first, lg @ [(INFO, ''Starting SwimBench knowledge loading...'')]),
         Uncaught (BaseException b)))
   \<and> (clear k = (k_cleared, Inr u)
        \<and> add usa_swimming_standards k_cleared = (k_first, Inr result_first)
        \<and> add college_recruiting_standards k_first = (k_second, Inl (Exception e)) \<longrightarrow>
      load_knowledge clear add k lg =
        ((k_second, lg @ [(INFO, ''Starting SwimBench knowledge loading...''),
                          (ERROR, ''Error loading SwimBench knowledge: '' @ e)]),
         HTTPException 500 (''Error loading knowledge: '' @ e)))
   \<and> (clear k = (k_cleared, Inr u)
        \<and> add usa_swimming_standards k_cleared = (k_first, Inr result_first)
        \<and> add college_recruiting_standards k_first = (k_second, Inl (BaseException b)) \<longrightarrow>
      load_knowledge clear add k lg =
        ((k_second, lg @ [(INFO, ''Starting SwimBench knowledge loading...'')]),
         Uncaught (BaseException b)))
   \<and> (clear k = (k_cleared, Inr u)
        \<and> add usa_swimming_standards k_cleared = (k_first, Inr result_first)
        \<and> add college_recruiting_standards k_first = (k_second, Inr result_second) \<longrightarrow>
      load_knowledge clear add k lg =
        ((k_second, lg @ [(INFO, ''Starting SwimBench knowledge loading...''),
                          (INFO, ''SwimBench knowledge loading completed successfully'')]),
         Returned ''success'' ''SwimBench knowledge base loaded successfully''
           [''USA Swimming Standards 2024-2028'', ''College Recruiting Standards'']))"
  by (simp add: load_knowledge_def Let_def)

theorem load_knowledge_report_witness:
  "load_knowledge (list_clear_raising (Exception ''connection refused''))
        (list_add [] (Exception [])) [college_recruiting_standards] []
     = (([college_recruiting_standards],
         [(INFO, ''Starting SwimBench knowledge loading...''),
          (ERROR, ''Error loading SwimBench knowledge: connection refused'')]),
        HTTPException 500 ''Error loading knowledge: connection refused'')
   \<and> load_knowledge (list_clear_raising (BaseException ''cancelled''))
        (list_add [] (Exception [])) [college_recruiting_standards] []
     = (([college_recruiting_standards],
         [(INFO, ''Starting SwimBench knowledge loading...'')]),
        Uncaught (BaseException ''cancelled''))
   \<and> load_knowledge list_clear
        (list_add ''USA Swimming Motivational Time Standards 2024-2028''
           (Exception ''fetch error''))
        [college_recruiting_standards] []
     = (([],
         [(INFO, ''Starting SwimBench knowledge loading...''),
          (ERROR, ''Error loading SwimBench knowledge: fetch error'')]),
        HTTPException 500 ''Error loading knowledge: fetch error'')
   \<and> load_knowledge list_clear
        (list_add ''USA Swimming Motivational Time Standards 2024-2028''
           (BaseException ''cancelled''))
        [college_recruiting_standards] []
     = (([], [(INFO, ''Starting SwimBench knowledge loading...'')]),
        Uncaught (BaseException ''cancelled''))
   \<and> load_knowledge list_clear
        (list_add ''College Swimming Recruiting Standards'' (Exception ''fetch error''))
        [college_recruiting_standards] []
     = (([usa_swimming_standards],
         [(INFO, ''Starting SwimBench knowledge loading...''),
          (ERROR, ''Error loading SwimBench knowledge: fetch error'')]),
        HTTPException 500 ''Error loading knowledge: fetch error'')
   \<and> load_knowledge list_clear
        (list_add ''College Swimming Recruiting Standards'' (BaseException ''cancelled''))
        [college_recruiting_standards] []
     = (([usa_swimming_standards],
         [(INFO, ''Starting SwimBench knowledge loading...'')]),
        Uncaught (BaseException ''cancelled''))
   \<and> load_knowledge list_clear (list_add [] (Exception [])) [college_recruiting_standards] []
     = (([usa_swimming_standards, college_recruiting_standards],
         [(INFO, ''Starting SwimBench knowledge loading...''),
          (INFO, ''SwimBench knowledge loading completed successfully'')]),
        Returned ''success'' ''SwimBench knowledge base loaded successfully''
          [''USA Swimming Standards 2024-2028'', ''College Recruiting Standards''])"
proof -
  let ?u = usa_swimming_standards
  let ?c = college_recruiting_standards
  let ?un = "''USA Swimming Motivational Time Standards 2024-2028''"
  let ?cn = "''College Swimming Recruiting Standards''"
  let ?refused = "Exception ''connection refused''"
  let ?fetch = "Exception ''fetch error''"
  let ?cancel = "BaseException ''cancelled''"
  have n1: "name ?u = ?un"
    by (simp add: usa_swimming_standards_def)
  have n2: "name ?c = ?cn"
    by (simp add: college_recruiting_standards_def)
  have c0: "list_clear_raising x [?c] = ([?c], Inl x)" for x
    by (simp add: list_clear_raising_def)
  have c1: "list_clear [?c] = ([], Inr ())"
    by (simp add: list_clear_def)
  have a1: "list_add ?un x ?u [] = ([], Inl x)" for x
    by (simp add: list_add_def n1)
  have a2: "list_add ?cn x ?u [] = ([?u], Inr 1)" for x
    by (simp add: list_add_def n1)
  have a3: "list_add ?cn x ?c [?u] = ([?u], Inl x)" for x
    by (simp add: list_add_def n2)
  have a4: "list_add [] x ?u [] = ([?u], Inr 1)" for x
    by (simp add: list_add_def n1)
  have a5: "list_add [] x ?c [?u] = ([?u, ?c], Inr 2)" for x
    by (simp add: list_add_def n2)
  have w1: "load_knowledge (list_clear_raising ?refused) (list_add [] (Exception [])) [?c] []
     = (([?c],
         [(INFO, ''Starting SwimBench knowledge loading...''),
          (ERROR, ''Error loading SwimBench knowledge: connection refused'')]),
        HTTPException 500 ''Error loading knowledge: connection refused'')"
    using load_knowledge_report
      [where clear = "list_clear_raising ?refused" and add = "list_add [] (Exception [])"
         and k = "[?c]" and lg = "[]" and k_cleared = "[?c]"
         and e = "''connection refused''",
       THEN conjunct1, THEN mp, OF c0]
    by simp
  have w2: "load_knowledge (list_clear_raising ?cancel) (list_add [] (Exception [])) [?c] []
     = (([?c], [(INFO, ''Starting SwimBench knowledge loading...'')]),
        Uncaught ?cancel)"
    using load_knowledge_report
      [where clear = "list_clear_raising ?cancel" and add = "list_add [] (Exception [])"
         and k = "[?c]" and lg = "[]" and k_cleared = "[?c]" and b = "''cancelled''",
       THEN conjunct2, THEN conjunct1, THEN mp, OF c0]
    by simp
  have w3: "load_knowledge list_clear (list_add ?un ?fetch) [?c] []
     = (([],
         [(INFO, ''Starting SwimBench knowledge loading...''),
          (ERROR, ''Error loading SwimBench knowledge: fetch error'')]),
        HTTPException 500 ''Error loading knowledge: fetch error'')"
    using load_knowledge_report
      [where clear = list_clear and add = "list_add ?un ?fetch"
         and k = "[?c]" and lg = "[]" and k_cleared = "[]" and u = "()"
         and k_first = "[]" and e = "''fetch error''",
       THEN conjunct2, THEN conjunct2, THEN conjunct1, THEN mp, OF conjI [OF c1 a1]]
    by simp
  have w4: "load_knowledge list_clear (list_add ?un ?cancel) [?c] []
     = (([], [(INFO, ''Starting SwimBench knowledge loading...'')]), Uncaught ?cancel)"
    using load_knowledge_report
      [where clear = list_clear and add = "list_add ?un ?cancel"
         and k = "[?c]" and lg = "[]" and k_cleared = "[]" and u = "()"
         and k_first = "[]" and b = "''cancelled''",
       THEN conjunct2, THEN conjunct2, THEN conjunct2, THEN conjunct1, THEN mp,
       OF conjI [OF c1 a1]]
    by simp
  have w5: "load_knowledge list_clear (list_add ?cn ?fetch) [?c] []
     = (([?u],
         [(INFO, ''Starting SwimBench knowledge loading...''),
          (ERROR, ''Error loading SwimBench knowledge: fetch error'')]),
        HTTPException 500 ''Error loading knowledge: fetch error'')"
    using load_knowledge_report
      [where clear = list_clear and add = "list_add ?cn ?fetch"
         and k = "[?c]" and lg = "[]" and k_cleared = "[]" and u = "()"
         and k_first = "[?u]" and result_first = 1 and k_second = "[?u]"
         and e = "''fetch error''",
       THEN conjunct2, THEN conjunct2, THEN conjunct2, THEN conjunct2, THEN conjunct1,
       THEN mp, OF conjI [OF c1 conjI [OF a2 a3]]]
    by simp
  have w6: "load_knowledge list_clear (list_add ?cn ?cancel) [?c] []
     = (([?u], [(INFO, ''Starting SwimBench knowledge loading...'')]), Uncaught ?cancel)"
    using load_knowledge_report
      [where clear = list_clear and add = "list_add ?cn ?cancel"
         and k = "[?c]" and lg = "[]" and k_cleared = "[]" and u = "()"
         and k_first = "[?u]" and result_first = 1 and k_second = "[?u]"
         and b = "''cancelled''",
       THEN conjunct2, THEN conjunct2, THEN conjunct2, THEN conjunct2, THEN conjunct2,
       THEN conjunct1, THEN mp, OF conjI [OF c1 conjI [OF a2 a3]]]
    by simp
  have w7: "load_knowledge list_clear (list_add [] (Exception [])) [?c] []
     = (([?u, ?c],
         [(INFO, ''Starting SwimBench knowledge loading...''),
          (INFO, ''SwimBench knowledge loading completed successfully'')]),
        Returned ''success'' ''SwimBench knowledge base loaded successfully''
          [''USA Swimming Standards 2024-2028'', ''College Recruiting Standards''])"
    using load_knowledge_report
      [where clear = list_clear and add = "list_add [] (Exception [])"
         and k = "[?c]" and lg = "[]" and k_cleared = "[]" and u = "()"
         and k_first = "[?u]" and result_first = 1 and k_second = "[?u, ?c]"
         and result_second = 2,
       THEN conjunct2, THEN conjunct2, THEN conjunct2, THEN conjunct2, THEN conjunct2,
       THEN conjunct2, THEN mp, OF conjI [OF c1 conjI [OF a4 a5]]]
    by simp
  show ?thesis
    by (rule conjI [OF w1 conjI [OF w2 conjI [OF w3 conjI [OF w4
          conjI [OF w5 conjI [OF w6 w7]]]]]])
qed

end
